theory Spec2Isabelle
  imports Complex_Main
begin

section \<open>Data model (types/surgery.types.ts)\<close>

datatype SurgeryComplexity = PORTE_1 | PORTE_2 | PORTE_3 | PORTE_4 | PORTE_ESPECIAL

datatype SurgeryStatus =
  SCHEDULED | CONFIRMED | IN_PROGRESS | COMPLETED | CANCELLED | POSTPONED

datatype AuthorizationStatus =
  AUTH_NOT_REQUIRED | PENDING | AUTHORIZED | DENIED | EXPIRED

datatype AuditStatus =
  AUDIT_NOT_REQUIRED | PENDING_AUDIT | IN_AUDIT | APPROVED | REJECTED | REQUIRES_REVIEW

text \<open>
  The interface \<^verbatim>\<open>SurgeryProcedure\<close>. Durations are whole minutes, dates are left out,
  and so are the fields that \<^verbatim>\<open>mapProcedureToSurgery\<close> fills with fixed mock data or
  reads from the tags (surgeon, assistants, room, hospital): no operation below branches
  on them.
\<close>

record SurgeryProcedure =
  sp_id :: string
  patientId :: string
  patientName :: string
  procedureCode :: string
  procedureName :: string
  category :: string
  complexity :: SurgeryComplexity
  estimatedDuration :: int
  basePrice :: rat
  status :: SurgeryStatus
  requiresAuthorization :: bool
  authorizationStatus :: AuthorizationStatus
  auditStatus :: AuditStatus
  createdBy :: string

text \<open>\<^verbatim>\<open>CreateSurgeryRequest\<close>; \<^verbatim>\<open>requiresAuthorization\<close> is optional.\<close>

record CreateSurgeryRequest =
  rq_patientId :: string
  rq_procedureCode :: string
  rq_procedureName :: string
  rq_category :: string
  rq_complexity :: SurgeryComplexity
  rq_estimatedDuration :: int
  rq_hospital :: string
  rq_requiresAuthorization :: "bool option"
  rq_createdBy :: string

record ConfirmPorteRequest =
  cf_complexity :: SurgeryComplexity
  cf_estimatedDuration :: int
  cf_basePrice :: rat
  cf_confirmedBy :: string
  cf_notes :: "string option"

section \<open>Collaborators: storage and event bus\<close>

record Patient =
  pt_id :: string
  fullName :: string

text \<open>
  A row of the table \<^verbatim>\<open>procedures\<close>, with the columns the service writes and reads.
  The row has no column for the authorization or the audit status.
\<close>

record ProcedureRow =
  db_id :: string
  db_code :: string
  db_name :: string
  db_category :: string
  db_complexity :: SurgeryComplexity
  db_estimatedDuration :: "int option"
  db_basePrice :: "rat option"
  db_status :: SurgeryStatus
  db_patientId :: string
  db_requiresAuthorization :: bool
  db_suggestedPort :: int
  db_tags :: "string list"

datatype AuditValues =
  PorteOld SurgeryComplexity "int option" "rat option"
| PorteNew SurgeryComplexity int rat "string option" string
| StatusValue SurgeryStatus

record AuditLog =
  al_action :: string
  al_entity :: string
  al_entityId :: string
  al_userId :: string
  al_userName :: string
  al_userRole :: string
  al_oldValues :: AuditValues
  al_newValues :: AuditValues
  al_patientId :: string
  al_procedureId :: string

record AuditRequest =
  ar_patientId :: string
  ar_procedureId :: string
  ar_type :: string
  priority :: string
  ar_requestedBy :: string
  md_complexity :: SurgeryComplexity
  md_estimatedDuration :: int
  md_basePrice :: rat

datatype Event =
  SurgeryCreated SurgeryProcedure
| PorteConfirmed SurgeryProcedure
| SurgeryStatusUpdated SurgeryProcedure
| AuditRequested AuditRequest

text \<open>
  The state the service works on: the two tables it reads and writes, the audit trail,
  and the events the bus has delivered, oldest first. The storage layer carries out
  every read and write it is asked for and keeps the values it is given; failures of its
  own (a violated index, a lost connection) are outside this model.
\<close>

record World =
  patients :: "string \<rightharpoonup> Patient"
  procedures :: "string \<rightharpoonup> ProcedureRow"
  auditLogs :: "AuditLog list"
  published :: "Event list"

text \<open>
  What the service cannot decide: the identifier the storage layer gives a new row,
  whether the bus has a connected client, and whether the sender delivers a message or
  throws.
\<close>

record Env =
  genId :: string
  connected :: bool
  delivers :: "Event \<Rightarrow> bool"

text \<open>
  What a call can throw: the two \<^verbatim>\<open>Error\<close>s of the service, the exception of a sender
  that fails, the \<^verbatim>\<open>TypeError\<close> of a call to a method that the object does not have
  (with the name called), and the answers 400 and 500 of the controller.
\<close>

datatype Error =
  NotFound string
| PublishFailure
| TypeError string
| BadRequest string
| InternalError string

text \<open>
  \<^verbatim>\<open>EventBusService.publishEvent\<close>: without a connected client the event is skipped
  with a warning; otherwise the message is sent, and an exception of the sender is logged
  and rethrown (\<open>None\<close>).
\<close>

definition publishEvent :: "Env \<Rightarrow> Event \<Rightarrow> World \<Rightarrow> World option" where
  "publishEvent env e w =
     (if connected env
      then (if delivers env e then Some (w\<lparr>published := published w @ [e]\<rparr>) else None)
      else Some w)"

text \<open>
  The publishers that \<^verbatim>\<open>EventBusService\<close> declares; its other methods are
  \<^verbatim>\<open>connect\<close>, \<^verbatim>\<open>disconnect\<close>, \<^verbatim>\<open>publishEvent\<close> and \<^verbatim>\<open>isHealthy\<close>. Each declared
  publisher hands its payload to \<^verbatim>\<open>publishEvent\<close> and awaits it.
\<close>

definition declaredPublishers :: "string list" where
  "declaredPublishers =
     [''publishAIRequestCreated'', ''publishAIRequestProcessed'',
      ''publishAIRequestCompleted'', ''publishAIRequestFailed'']"

text \<open>
  A call \<^verbatim>\<open>eventBusService.name(payload)\<close>. A name that the object does not have is
  \<^verbatim>\<open>undefined\<close>, and calling it throws a \<^verbatim>\<open>TypeError\<close> before anything is published.
  \<^verbatim>\<open>SurgeryService\<close> calls \<^verbatim>\<open>publishSurgeryCreated\<close>, \<^verbatim>\<open>publishPorteConfirmed\<close>,
  \<^verbatim>\<open>publishSurgeryStatusUpdated\<close> and \<^verbatim>\<open>publishAuditRequested\<close>, none of which is
  declared.
\<close>

definition callPublisher :: "Env \<Rightarrow> string \<Rightarrow> Event \<Rightarrow> World \<Rightarrow> Error + World" where
  "callPublisher env name e w =
     (if name \<in> set declaredPublishers
      then (case publishEvent env e w of
              None \<Rightarrow> Inl PublishFailure
            | Some w' \<Rightarrow> Inr w')
      else Inl (TypeError name))"

section \<open>SurgeryService\<close>

text \<open>JavaScript's \<^verbatim>\<open>Math.round\<close>: the nearest integer, a tie going up.\<close>

definition Math_round :: "rat \<Rightarrow> int" where
  "Math_round x = \<lfloor>x + 1 / 2\<rfloor>"

text \<open>The object literal \<^verbatim>\<open>baseRates\<close>, keyed by complexity.\<close>

definition baseRates :: "(SurgeryComplexity \<times> int) list" where
  "baseRates =
     [(PORTE_1, 500), (PORTE_2, 1500), (PORTE_3, 3000), (PORTE_4, 5000),
      (PORTE_ESPECIAL, 8000)]"

text \<open>\<^verbatim>\<open>baseRates[complexity] || 1000\<close>: a missing or zero entry falls back to 1000.\<close>

definition baseRate :: "SurgeryComplexity \<Rightarrow> int" where
  "baseRate c =
     (case map_of baseRates c of
        None \<Rightarrow> 1000
      | Some r \<Rightarrow> if r = 0 then 1000 else r)"

text \<open>
  \<^verbatim>\<open>calculateBasePrice\<close> has no check and no \<^verbatim>\<open>throw\<close>: it returns a number for
  every duration.
\<close>

definition calculateBasePrice :: "SurgeryComplexity \<Rightarrow> int \<Rightarrow> int" where
  "calculateBasePrice c duration =
     (let durationMultiplier = max 1 (rat_of_int duration / 60)
      in Math_round (rat_of_int (baseRate c) * durationMultiplier))"

definition requiresAudit :: "SurgeryComplexity \<Rightarrow> bool" where
  "requiresAudit c = (c \<in> set [PORTE_3, PORTE_4, PORTE_ESPECIAL])"

fun complexity_tag :: "SurgeryComplexity \<Rightarrow> string" where
  "complexity_tag PORTE_1 = ''PORTE_1''"
| "complexity_tag PORTE_2 = ''PORTE_2''"
| "complexity_tag PORTE_3 = ''PORTE_3''"
| "complexity_tag PORTE_4 = ''PORTE_4''"
| "complexity_tag PORTE_ESPECIAL = ''PORTE_ESPECIAL''"

text \<open>The payload that \<^verbatim>\<open>createAuditRequest\<close> hands to \<^verbatim>\<open>publishAuditRequested\<close>.\<close>

definition auditRequestOf :: "SurgeryProcedure \<Rightarrow> AuditRequest" where
  "auditRequestOf surgery =
     \<lparr>ar_patientId = patientId surgery,
      ar_procedureId = sp_id surgery,
      ar_type = ''PORTE_CLASSIFICATION'',
      priority = (if complexity surgery = PORTE_ESPECIAL then ''URGENT'' else ''HIGH''),
      ar_requestedBy = ''system'',
      md_complexity = complexity surgery,
      md_estimatedDuration = estimatedDuration surgery,
      md_basePrice = basePrice surgery\<rparr>"

text \<open>
  \<^verbatim>\<open>createAuditRequest\<close> calls \<^verbatim>\<open>publishAuditRequested\<close> inside its own \<^verbatim>\<open>try\<close>; its
  \<^verbatim>\<open>catch\<close> only logs, so whatever the call throws leaves the state as it was and
  nothing is thrown further.
\<close>

definition createAuditRequest :: "Env \<Rightarrow> SurgeryProcedure \<Rightarrow> World \<Rightarrow> World" where
  "createAuditRequest env surgery w =
     (case callPublisher env ''publishAuditRequested''
             (AuditRequested (auditRequestOf surgery)) w of
        Inr w' \<Rightarrow> w'
      | Inl error \<Rightarrow> w)"

text \<open>
  \<^verbatim>\<open>createSurgery\<close>. The patient is looked up first; the row is written next;
  \<^verbatim>\<open>publishSurgeryCreated\<close> is called after the write, and what that call throws leaves
  through the outer \<^verbatim>\<open>catch\<close>, which rethrows.
\<close>

definition createSurgery ::
  "Env \<Rightarrow> World \<Rightarrow> CreateSurgeryRequest \<Rightarrow> (Error + SurgeryProcedure) \<times> World" where
  "createSurgery env w data =
     (case patients w (rq_patientId data) of
        None \<Rightarrow> (Inl (NotFound ''Patient not found''), w)
      | Some patient \<Rightarrow>
          let price = calculateBasePrice (rq_complexity data) (rq_estimatedDuration data);
              row =
                \<lparr>db_id = genId env,
                 db_code = rq_procedureCode data,
                 db_name = rq_procedureName data,
                 db_category = rq_category data,
                 db_complexity = rq_complexity data,
                 db_estimatedDuration = Some (rq_estimatedDuration data),
                 db_basePrice = Some (rat_of_int price),
                 db_status = SCHEDULED,
                 db_patientId = rq_patientId data,
                 db_requiresAuthorization =
                   (case rq_requiresAuthorization data of Some b \<Rightarrow> b | None \<Rightarrow> False),
                 db_suggestedPort = 1,
                 db_tags =
                   [''surgery'', complexity_tag (rq_complexity data), rq_category data,
                    rq_hospital data]\<rparr>;
              w1 = w\<lparr>procedures := (procedures w)(genId env \<mapsto> row)\<rparr>;
              surgeryProcedure =
                \<lparr>sp_id = db_id row,
                 patientId = rq_patientId data,
                 patientName = fullName patient,
                 procedureCode = rq_procedureCode data,
                 procedureName = rq_procedureName data,
                 category = rq_category data,
                 complexity = rq_complexity data,
                 estimatedDuration = rq_estimatedDuration data,
                 basePrice = rat_of_int price,
                 status = SCHEDULED,
                 requiresAuthorization =
                   (case rq_requiresAuthorization data of Some b \<Rightarrow> b | None \<Rightarrow> False),
                 authorizationStatus =
                   (if rq_requiresAuthorization data = Some True then PENDING
                    else AUTH_NOT_REQUIRED),
                 auditStatus = PENDING_AUDIT,
                 createdBy = rq_createdBy data\<rparr>
          in (case callPublisher env ''publishSurgeryCreated''
                     (SurgeryCreated surgeryProcedure) w1 of
                Inl error \<Rightarrow> (Inl error, w1)
              | Inr w2 \<Rightarrow>
                  (Inr surgeryProcedure,
                   if requiresAudit (rq_complexity data)
                   then createAuditRequest env surgeryProcedure w2 else w2)))"

text \<open>
  \<^verbatim>\<open>mapProcedureToSurgery\<close>, on a row and the patient joined to it. A missing duration
  or price reads as 0; the two statuses are computed from the row, the audit status from
  \<^verbatim>\<open>requiresAudit\<close>.
\<close>

definition mapProcedureToSurgery :: "Patient option \<Rightarrow> ProcedureRow \<Rightarrow> SurgeryProcedure" where
  "mapProcedureToSurgery patient procedure =
     \<lparr>sp_id = db_id procedure,
      patientId = db_patientId procedure,
      patientName =
        (case patient of
           None \<Rightarrow> ''Unknown''
         | Some p \<Rightarrow> if fullName p = [] then ''Unknown'' else fullName p),
      procedureCode = db_code procedure,
      procedureName = db_name procedure,
      category = db_category procedure,
      complexity = db_complexity procedure,
      estimatedDuration = (case db_estimatedDuration procedure of None \<Rightarrow> 0 | Some d \<Rightarrow> d),
      basePrice = (case db_basePrice procedure of None \<Rightarrow> 0 | Some p \<Rightarrow> p),
      status = db_status procedure,
      requiresAuthorization = db_requiresAuthorization procedure,
      authorizationStatus =
        (if db_requiresAuthorization procedure then PENDING else AUTH_NOT_REQUIRED),
      auditStatus =
        (if requiresAudit (db_complexity procedure) then PENDING_AUDIT
         else AUDIT_NOT_REQUIRED),
      createdBy = ''system''\<rparr>"

definition getSurgeryById :: "World \<Rightarrow> string \<Rightarrow> Error + SurgeryProcedure" where
  "getSurgeryById w i =
     (case procedures w i of
        None \<Rightarrow> Inl (NotFound ''Surgery procedure not found'')
      | Some procedure \<Rightarrow>
          Inr (mapProcedureToSurgery (patients w (db_patientId procedure)) procedure))"

text \<open>
  \<^verbatim>\<open>confirmPorte\<close>: the three classification columns are overwritten with the values of
  the request as they are, the audit log is appended, and \<^verbatim>\<open>publishPorteConfirmed\<close> is
  called last; what it throws is rethrown after both writes.
\<close>

definition confirmPorte ::
  "Env \<Rightarrow> World \<Rightarrow> string \<Rightarrow> ConfirmPorteRequest \<Rightarrow> (Error + SurgeryProcedure) \<times> World" where
  "confirmPorte env w i confirmation =
     (case procedures w i of
        None \<Rightarrow> (Inl (NotFound ''Surgery procedure not found''), w)
      | Some procedure \<Rightarrow>
          let updatedProcedure =
                procedure
                  \<lparr>db_complexity := cf_complexity confirmation,
                   db_estimatedDuration := Some (cf_estimatedDuration confirmation),
                   db_basePrice := Some (cf_basePrice confirmation)\<rparr>;
              w1 = w\<lparr>procedures := (procedures w)(i \<mapsto> updatedProcedure)\<rparr>;
              w2 = w1\<lparr>auditLogs := auditLogs w1 @
                     [\<lparr>al_action = ''UPDATE'',
                       al_entity = ''PROCEDURE'',
                       al_entityId = i,
                       al_userId = cf_confirmedBy confirmation,
                       al_userName = cf_confirmedBy confirmation,
                       al_userRole = ''SURGEON'',
                       al_oldValues =
                         PorteOld (db_complexity procedure) (db_estimatedDuration procedure)
                           (db_basePrice procedure),
                       al_newValues =
                         PorteNew (cf_complexity confirmation)
                           (cf_estimatedDuration confirmation) (cf_basePrice confirmation)
                           (cf_notes confirmation) ''PORTE_CONFIRMED'',
                       al_patientId = db_patientId procedure,
                       al_procedureId = i\<rparr>]\<rparr>;
              surgeryProcedure =
                mapProcedureToSurgery (patients w (db_patientId procedure)) updatedProcedure
          in (case callPublisher env ''publishPorteConfirmed''
                     (PorteConfirmed surgeryProcedure) w2 of
                Inl error \<Rightarrow> (Inl error, w2)
              | Inr w3 \<Rightarrow> (Inr surgeryProcedure, w3)))"

text \<open>
  \<^verbatim>\<open>updateSurgeryStatus\<close>: the status column is overwritten, the audit log is appended,
  and \<^verbatim>\<open>publishSurgeryStatusUpdated\<close> is called last.
\<close>

definition updateSurgeryStatus ::
  "Env \<Rightarrow> World \<Rightarrow> string \<Rightarrow> SurgeryStatus \<Rightarrow> string \<Rightarrow> (Error + SurgeryProcedure) \<times> World"
  where
  "updateSurgeryStatus env w i newStatus updatedBy =
     (case procedures w i of
        None \<Rightarrow> (Inl (NotFound ''Surgery procedure not found''), w)
      | Some procedure \<Rightarrow>
          let updatedProcedure = procedure\<lparr>db_status := newStatus\<rparr>;
              w1 = w\<lparr>procedures := (procedures w)(i \<mapsto> updatedProcedure)\<rparr>;
              w2 = w1\<lparr>auditLogs := auditLogs w1 @
                     [\<lparr>al_action = ''UPDATE'',
                       al_entity = ''PROCEDURE'',
                       al_entityId = i,
                       al_userId = updatedBy,
                       al_userName = updatedBy,
                       al_userRole = ''MEDICAL_STAFF'',
                       al_oldValues = StatusValue (db_status procedure),
                       al_newValues = StatusValue newStatus,
                       al_patientId = db_patientId procedure,
                       al_procedureId = i\<rparr>]\<rparr>;
              surgeryProcedure =
                mapProcedureToSurgery (patients w (db_patientId procedure)) updatedProcedure
          in (case callPublisher env ''publishSurgeryStatusUpdated''
                     (SurgeryStatusUpdated surgeryProcedure) w2 of
                Inl error \<Rightarrow> (Inl error, w2)
              | Inr w3 \<Rightarrow> (Inr surgeryProcedure, w3)))"

section \<open>ProcedureController.validatePorte\<close>

text \<open>
  A JavaScript string is a sequence of UTF-16 code units; \<open>ascii\<close> spells one from an
  ASCII literal.
\<close>

type_synonym jsstring = "nat list"

definition ascii :: "string \<Rightarrow> jsstring" where
  "ascii s = map of_char s"

text \<open>
  The values of type Number: \<^verbatim>\<open>NaN\<close>, the two infinities, and the finite ones by their
  exact value (the two zeros are one). The two fields of the request body are untyped
  values: absent, \<^verbatim>\<open>null\<close>, a boolean, a number or a string.
\<close>

datatype jsnum = NaN | PosInfinity | NegInfinity | Finite rat

datatype jsval = JUndefined | JNull | JBool bool | JNumber jsnum | JStr jsstring

text \<open>The values that \<^verbatim>\<open>!v\<close> takes for absent.\<close>

definition falsy :: "jsval \<Rightarrow> bool" where
  "falsy v =
     (case v of
        JUndefined \<Rightarrow> True
      | JNull \<Rightarrow> True
      | JBool b \<Rightarrow> b = False
      | JNumber n \<Rightarrow> n = NaN \<or> n = Finite 0
      | JStr s \<Rightarrow> s = [])"

text \<open>
  The white space that \<^verbatim>\<open>parseInt\<close> skips: tab, line feed, vertical tab, form feed,
  carriage return, space, no-break space, the other space separators of Unicode, the
  line and paragraph separators and the byte order mark.
\<close>

definition is_space :: "nat \<Rightarrow> bool" where
  "is_space u =
     (u \<in> set [9, 10, 11, 12, 13, 32, 160, 5760, 8232, 8233, 8239, 8287, 12288, 65279]
      \<or> (8192 \<le> u \<and> u \<le> 8202))"

text \<open>The value of a digit or letter: \<open>0\<close> to \<open>9\<close>, then \<open>a\<close> to \<open>z\<close> in either case from 10.\<close>

definition digit_val :: "nat \<Rightarrow> nat option" where
  "digit_val u =
     (if 48 \<le> u \<and> u \<le> 57 then Some (u - 48)
      else if 97 \<le> u \<and> u \<le> 122 then Some (u - 87)
      else if 65 \<le> u \<and> u \<le> 90 then Some (u - 55)
      else None)"

definition is_digit :: "nat \<Rightarrow> nat \<Rightarrow> bool" where
  "is_digit radix u = (case digit_val u of None \<Rightarrow> False | Some v \<Rightarrow> v < radix)"

text \<open>
  The two places where \<^verbatim>\<open>parseInt\<close> depends on how the engine prints and rounds
  numbers. \<open>leadingInt\<close> is consulted for a number outside \<open>[10\<^sup>-\<^sup>6, 10\<^sup>2\<^sup>1)\<close> in magnitude,
  which \<^verbatim>\<open>toString\<close> prints by its shortest digits, in exponent form as a rule: it is
  the integer spelled by the sign and the digits printed before the point or the
  exponent. \<open>toNumber\<close> is consulted for an integer beyond \<open>2\<^sup>5\<^sup>3\<close> in magnitude read from
  a string: it is the Number the engine rounds it to, possibly infinite.
\<close>

record Runtime =
  leadingInt :: "rat \<Rightarrow> int"
  toNumber :: "int \<Rightarrow> jsnum"

text \<open>
  \<^verbatim>\<open>parseInt\<close> of a string with no radix given: leading white space and one sign are
  skipped, a prefix \<^verbatim>\<open>0x\<close> selects base 16, and the longest run of digits is read;
  no digit gives \<^verbatim>\<open>NaN\<close>. An integer up to \<open>2\<^sup>5\<^sup>3\<close> in magnitude is a Number as it is.
\<close>

definition parseInt_string :: "Runtime \<Rightarrow> jsstring \<Rightarrow> jsnum" where
  "parseInt_string rt s =
     (let s1 = dropWhile is_space s;
          negative = (take 1 s1 = ascii ''-'');
          s2 = (if take 1 s1 = ascii ''-'' \<or> take 1 s1 = ascii ''+'' then drop 1 s1 else s1);
          hex = (take 2 s2 = ascii ''0x'' \<or> take 2 s2 = ascii ''0X'');
          radix = (if hex then 16 else 10);
          s3 = (if hex then drop 2 s2 else s2);
          ds = takeWhile (is_digit radix) s3;
          n = foldl (\<lambda>a u. a * radix + (case digit_val u of None \<Rightarrow> 0 | Some v \<Rightarrow> v)) 0 ds;
          mathInt = (if negative then - int n else int n)
      in if ds = [] then NaN
         else if \<bar>mathInt\<bar> \<le> 9007199254740992 then Finite (rat_of_int mathInt)
         else toNumber rt mathInt)"

text \<open>Rounding towards zero, which is dropping the digits after the point.\<close>

definition toward_zero :: "rat \<Rightarrow> int" where
  "toward_zero r = (if 0 \<le> r then \<lfloor>r\<rfloor> else \<lceil>r\<rceil>)"

text \<open>
  \<^verbatim>\<open>parseInt\<close> converts its argument to a string first. A number from \<open>10\<^sup>-\<^sup>6\<close> up to
  \<open>10\<^sup>2\<^sup>1\<close> in magnitude prints in decimal notation and reads back as its integer part; 0
  prints as \<^verbatim>\<open>0\<close>; the other finite numbers are left to \<open>leadingInt\<close>. The remaining
  values print as words that start with no digit.
\<close>

definition parseInt :: "Runtime \<Rightarrow> jsval \<Rightarrow> jsnum" where
  "parseInt rt v =
     (case v of
        JNumber n \<Rightarrow>
          (case n of
             Finite r \<Rightarrow>
               if r = 0 then Finite 0
               else if 1 / 1000000 \<le> \<bar>r\<bar> \<and> \<bar>r\<bar> < 10 ^ 21
               then Finite (rat_of_int (toward_zero r))
               else Finite (rat_of_int (leadingInt rt r))
           | NaN \<Rightarrow> NaN
           | PosInfinity \<Rightarrow> NaN
           | NegInfinity \<Rightarrow> NaN)
      | JStr s \<Rightarrow> parseInt_string rt s
      | JUndefined \<Rightarrow> NaN
      | JNull \<Rightarrow> NaN
      | JBool b \<Rightarrow> NaN)"

text \<open>
  The comparisons \<^verbatim>\<open>n >= k\<close> and \<^verbatim>\<open>n <= k\<close> of a Number with an integer, the difference
  \<^verbatim>\<open>n - k\<close> and \<^verbatim>\<open>Math.abs\<close>. Every comparison with \<^verbatim>\<open>NaN\<close> is false. The integers are
  the ports of a rule, 32-bit columns of the table, for which the exact comparisons here
  are those of the engine.
\<close>

definition num_ge :: "jsnum \<Rightarrow> int \<Rightarrow> bool" where
  "num_ge n k =
     (case n of
        NaN \<Rightarrow> False
      | PosInfinity \<Rightarrow> True
      | NegInfinity \<Rightarrow> False
      | Finite r \<Rightarrow> rat_of_int k \<le> r)"

definition num_le :: "jsnum \<Rightarrow> int \<Rightarrow> bool" where
  "num_le n k =
     (case n of
        NaN \<Rightarrow> False
      | PosInfinity \<Rightarrow> False
      | NegInfinity \<Rightarrow> True
      | Finite r \<Rightarrow> r \<le> rat_of_int k)"

definition num_minus :: "jsnum \<Rightarrow> int \<Rightarrow> jsnum" where
  "num_minus n k =
     (case n of
        NaN \<Rightarrow> NaN
      | PosInfinity \<Rightarrow> PosInfinity
      | NegInfinity \<Rightarrow> NegInfinity
      | Finite r \<Rightarrow> Finite (r - rat_of_int k))"

definition Math_abs :: "jsnum \<Rightarrow> jsnum" where
  "Math_abs n =
     (case n of
        NaN \<Rightarrow> NaN
      | PosInfinity \<Rightarrow> PosInfinity
      | NegInfinity \<Rightarrow> PosInfinity
      | Finite r \<Rightarrow> Finite \<bar>r\<bar>)"

record PortValidationRule =
  rule_procedureCode :: jsstring
  minimumPort :: int
  maximumPort :: int
  recommendedPort :: int
  isActive :: bool

datatype PorteMessage =
  NoRuleFound
| WithinRange
| Divergence int jsnum

record PorteVerdict =
  isValid :: bool
  v_procedureCode :: jsstring
  reportedPorte :: jsval
  expectedPorte :: jsval
  minimumPorte :: "int option"
  maximumPorte :: "int option"
  severity :: string
  message :: PorteMessage

text \<open>\<^verbatim>\<open>prisma.portValidationRule.findFirst\<close> with the code and \<^verbatim>\<open>isActive: true\<close>.\<close>

definition findActiveRule ::
  "PortValidationRule list \<Rightarrow> jsstring \<Rightarrow> PortValidationRule option" where
  "findActiveRule rules code = find (\<lambda>r. rule_procedureCode r = code \<and> isActive r) rules"

text \<open>
  The block that assigns \<^verbatim>\<open>severity\<close>: \<^verbatim>\<open>INFO\<close> unless the verdict is invalid, and then
  by the distance \<^verbatim>\<open>Math.abs(reportedPorteNum - expectedPorte)\<close>.
\<close>

definition porteSeverity :: "bool \<Rightarrow> jsnum \<Rightarrow> int \<Rightarrow> string" where
  "porteSeverity valid reportedPorteNum expected =
     (if valid then ''INFO''
      else
        (let diff = Math_abs (num_minus reportedPorteNum expected)
         in if num_ge diff 2 then ''HIGH''
            else if diff = Finite 1 then ''MEDIUM''
            else ''LOW''))"

text \<open>
  \<^verbatim>\<open>validatePorte\<close>. The guard answers 400 when either field is falsy; the rule is
  looked up after it. A code that is truthy but not a string is refused by the typed
  query, and the \<^verbatim>\<open>catch\<close> answers 500.
\<close>

definition validatePorte ::
  "Runtime \<Rightarrow> PortValidationRule list \<Rightarrow> jsval \<Rightarrow> jsval \<Rightarrow> Error + PorteVerdict" where
  "validatePorte rt rules code reported =
     (if falsy code \<or> falsy reported
      then Inl (BadRequest ''procedureCode and reportedPorte are required'')
      else
        (case code of
           JStr c \<Rightarrow>
             (case findActiveRule rules c of
                None \<Rightarrow>
                  Inr \<lparr>isValid = True,
                       v_procedureCode = c,
                       reportedPorte = reported,
                       expectedPorte = reported,
                       minimumPorte = None,
                       maximumPorte = None,
                       severity = ''INFO'',
                       message = NoRuleFound\<rparr>
              | Some rule \<Rightarrow>
                  let reportedPorteNum = parseInt rt reported;
                      valid =
                        (num_ge reportedPorteNum (minimumPort rule)
                         \<and> num_le reportedPorteNum (maximumPort rule));
                      expected = recommendedPort rule
                  in Inr \<lparr>isValid = valid,
                          v_procedureCode = c,
                          reportedPorte = JNumber reportedPorteNum,
                          expectedPorte = JNumber (Finite (rat_of_int expected)),
                          minimumPorte = Some (minimumPort rule),
                          maximumPorte = Some (maximumPort rule),
                          severity = porteSeverity valid reportedPorteNum expected,
                          message =
                            (if valid then WithinRange
                             else Divergence expected reportedPorteNum)\<rparr>)
         | JUndefined \<Rightarrow> Inl (InternalError ''Failed to validate porte'')
         | JNull \<Rightarrow> Inl (InternalError ''Failed to validate porte'')
         | JBool b \<Rightarrow> Inl (InternalError ''Failed to validate porte'')
         | JNumber n \<Rightarrow> Inl (InternalError ''Failed to validate porte'')))"

section \<open>AnalyticsService.getEfficiencyMetrics\<close>

text \<open>
  The columns the query selects, with the hospital it filters on. Dates are milliseconds
  since the epoch, as \<^verbatim>\<open>getTime\<close> returns them.
\<close>

record ProcedureTiming =
  hospitalId :: string
  scheduledDate :: "int option"
  performedDate :: "int option"
  duration :: "int option"

record ProcedureEfficiency =
  procedimentos_no_prazo :: nat
  procedimentos_atrasados :: nat
  taxa_pontualidade :: rat
  tempo_medio_atraso :: rat
  utilizacao_sala :: "rat option"
  procedimentos_por_dia :: rat

text \<open>The four counters of the loop.\<close>

record EfficiencyTally =
  no_prazo :: nat
  atrasados :: nat
  total_atraso :: rat
  total_duracao :: int

text \<open>The \<^verbatim>\<open>where\<close> clause: the hospital, and a performed date inside the window.\<close>

definition inWindow :: "string \<Rightarrow> int \<Rightarrow> int \<Rightarrow> ProcedureTiming \<Rightarrow> bool" where
  "inWindow hId startDate endDate proc =
     (hospitalId proc = hId \<and>
      (case performedDate proc of
         None \<Rightarrow> False
       | Some t \<Rightarrow> startDate \<le> t \<and> t \<le> endDate))"

text \<open>The body of \<^verbatim>\<open>procedures.forEach\<close>.\<close>

definition tallyProcedure :: "EfficiencyTally \<Rightarrow> ProcedureTiming \<Rightarrow> EfficiencyTally" where
  "tallyProcedure acc proc =
     (let acc1 =
            (case scheduledDate proc of
               None \<Rightarrow> acc
             | Some scheduled \<Rightarrow>
                 (case performedDate proc of
                    None \<Rightarrow> acc
                  | Some performed \<Rightarrow>
                      let diffMs = performed - scheduled;
                          diffHours = rat_of_int diffMs / (1000 * 60 * 60)
                      in if diffHours \<le> 1
                         then acc\<lparr>no_prazo := no_prazo acc + 1\<rparr>
                         else acc\<lparr>atrasados := atrasados acc + 1,
                                  total_atraso := total_atraso acc + diffHours\<rparr>))
      in (case duration proc of
            None \<Rightarrow> acc1
          | Some d \<Rightarrow>
              if d = 0 then acc1 else acc1\<lparr>total_duracao := total_duracao acc1 + d\<rparr>))"

text \<open>
  \<^verbatim>\<open>getEfficiencyMetrics\<close> on the resolved window \<open>[startDate, endDate]\<close> and the rows of
  the table. \<open>total\<close> is the number of rows the query returns, with or without a
  scheduled date. A division by zero days gives no finite number, here \<open>None\<close>.
\<close>

definition getEfficiencyMetrics ::
  "string \<Rightarrow> int \<Rightarrow> int \<Rightarrow> ProcedureTiming list \<Rightarrow> ProcedureEfficiency" where
  "getEfficiencyMetrics hId startDate endDate rows =
     (let procs = filter (inWindow hId startDate endDate) rows;
          t = foldl tallyProcedure
                \<lparr>no_prazo = 0, atrasados = 0, total_atraso = 0, total_duracao = 0\<rparr> procs;
          total = length procs;
          dias = \<lceil>rat_of_int (endDate - startDate) / (1000 * 60 * 60 * 24)\<rceil>
      in \<lparr>procedimentos_no_prazo = no_prazo t,
          procedimentos_atrasados = atrasados t,
          taxa_pontualidade =
            (if 0 < total then (of_nat (no_prazo t) / of_nat total) * 100 else 0),
          tempo_medio_atraso =
            (if 0 < atrasados t then total_atraso t / of_nat (atrasados t) else 0),
          utilizacao_sala =
            (if dias = 0 then None
             else Some (rat_of_int (total_duracao t) / rat_of_int (dias * 24 * 60) * 100)),
          procedimentos_por_dia =
            (if 0 < dias then of_nat total / rat_of_int dias else 0)\<rparr>)"

text \<open>
  The classification in the words of the specification, to compare the loop with: the
  delay of a procedure in hours, defined when both of its dates are set; on time is a
  delay of at most one hour, late is a longer one, and only a late procedure contributes
  its delay to the average.
\<close>

definition delayHours :: "ProcedureTiming \<Rightarrow> rat option" where
  "delayHours proc =
     (case scheduledDate proc of
        None \<Rightarrow> None
      | Some scheduled \<Rightarrow>
          (case performedDate proc of
             None \<Rightarrow> None
           | Some performed \<Rightarrow> Some (rat_of_int (performed - scheduled) / 3600000)))"

definition onTime :: "ProcedureTiming \<Rightarrow> bool" where
  "onTime proc = (case delayHours proc of None \<Rightarrow> False | Some h \<Rightarrow> h \<le> 1)"

definition late :: "ProcedureTiming \<Rightarrow> bool" where
  "late proc = (case delayHours proc of None \<Rightarrow> False | Some h \<Rightarrow> 1 < h)"

definition lateDelay :: "ProcedureTiming \<Rightarrow> rat" where
  "lateDelay proc = (case delayHours proc of None \<Rightarrow> 0 | Some h \<Rightarrow> if 1 < h then h else 0)"

section \<open>Scenarios\<close>

text \<open>
  One patient, a connected bus whose sender delivers every message, a request for each
  complexity and duration, and a world holding one stored procedure of that patient.
\<close>

definition patient_ana :: Patient where
  "patient_ana = \<lparr>pt_id = ''pat-1'', fullName = ''Ana Souza''\<rparr>"

definition world0 :: World where
  "world0 =
     \<lparr>patients = [''pat-1'' \<mapsto> patient_ana],
      procedures = Map.empty,
      auditLogs = [],
      published = []\<rparr>"

definition bus_up :: Env where
  "bus_up = \<lparr>genId = ''proc-1'', connected = True, delivers = (\<lambda>e. True)\<rparr>"

definition surgery_request :: "string \<Rightarrow> SurgeryComplexity \<Rightarrow> int \<Rightarrow> CreateSurgeryRequest" where
  "surgery_request pid c d =
     \<lparr>rq_patientId = pid,
      rq_procedureCode = ''31005497'',
      rq_procedureName = ''Colecistectomia'',
      rq_category = ''GENERAL_SURGERY'',
      rq_complexity = c,
      rq_estimatedDuration = d,
      rq_hospital = ''hospital-central'',
      rq_requiresAuthorization = Some True,
      rq_createdBy = ''dr-lima''\<rparr>"

definition stored_row :: ProcedureRow where
  "stored_row =
     \<lparr>db_id = ''proc-1'',
      db_code = ''31005497'',
      db_name = ''Colecistectomia'',
      db_category = ''GENERAL_SURGERY'',
      db_complexity = PORTE_2,
      db_estimatedDuration = Some 90,
      db_basePrice = Some 2250,
      db_status = SCHEDULED,
      db_patientId = ''pat-1'',
      db_requiresAuthorization = True,
      db_suggestedPort = 1,
      db_tags = [''surgery'', ''PORTE_2'', ''GENERAL_SURGERY'', ''hospital-central'']\<rparr>"

definition world1 :: World where
  "world1 = world0\<lparr>procedures := [''proc-1'' \<mapsto> stored_row]\<rparr>"

definition confirmation :: "rat \<Rightarrow> ConfirmPorteRequest" where
  "confirmation price =
     \<lparr>cf_complexity = PORTE_3,
      cf_estimatedDuration = 120,
      cf_basePrice = price,
      cf_confirmedBy = ''dr-lima'',
      cf_notes = None\<rparr>"

definition rule_2_3 :: PortValidationRule where
  "rule_2_3 =
     \<lparr>rule_procedureCode = ascii ''31005497'',
      minimumPort = 2,
      maximumPort = 3,
      recommendedPort = 2,
      isActive = True\<rparr>"

text \<open>
  An engine for the scenarios. For the two functions of \<open>Runtime\<close> it answers with the
  first decimal digit of the exact value and with the integer itself, leaving the
  rounding of a real engine aside; the numbers and strings of the scenarios reach
  neither.
\<close>

fun leading_digit :: "nat \<Rightarrow> nat" where
  "leading_digit n = (if n < 10 then n else leading_digit (n div 10))"

fun small_digit :: "nat \<Rightarrow> rat \<Rightarrow> nat" where
  "small_digit 0 r = 0"
| "small_digit (Suc k) r = (if 1 \<le> r then nat \<lfloor>r\<rfloor> else small_digit k (r * 10))"

definition engine :: Runtime where
  "engine =
     \<lparr>leadingInt =
        (\<lambda>r. (if r < 0 then - 1 else 1) *
              int (if 1 \<le> \<bar>r\<bar> then leading_digit (nat \<lfloor>\<bar>r\<bar>\<rfloor>) else small_digit 400 \<bar>r\<bar>)),
      toNumber = (\<lambda>n. Finite (rat_of_int n))\<rparr>"

definition timing :: "int \<Rightarrow> int \<Rightarrow> ProcedureTiming" where
  "timing scheduled performed =
     \<lparr>hospitalId = ''hosp_sagrada_familia_001'',
      scheduledDate = Some scheduled,
      performedDate = Some performed,
      duration = Some 60\<rparr>"

section \<open>The price model\<close>

lemma baseRate_simps:
  "baseRate PORTE_1 = 500" "baseRate PORTE_2 = 1500" "baseRate PORTE_3 = 3000"
  "baseRate PORTE_4 = 5000" "baseRate PORTE_ESPECIAL = 8000"
  by (simp_all add: baseRate_def baseRates_def)

lemma Math_round_div60:
  "Math_round (rat_of_int r * (rat_of_int d / 60)) = (r * d + 30) div 60"
proof -
  have "rat_of_int r * (rat_of_int d / 60) + 1 / 2 = rat_of_int (r * d + 30) / rat_of_int 60"
    by (simp add: field_simps)
  then show ?thesis
    unfolding Math_round_def by (simp only: floor_divide_of_int_eq)
qed

lemma Math_round_of_int: "Math_round (rat_of_int r) = r"
  unfolding Math_round_def by linarith

lemma calculateBasePrice_short:
  "d \<le> 60 \<Longrightarrow> calculateBasePrice c d = baseRate c"
  by (simp add: calculateBasePrice_def max_def Math_round_of_int)

lemma calculateBasePrice_long:
  assumes "60 < d"
  shows "calculateBasePrice c d = (baseRate c * d + 30) div 60"
proof -
  have "max 1 (rat_of_int d / 60) = rat_of_int d / 60"
    using assms by (simp add: max_def)
  then show ?thesis
    by (simp only: calculateBasePrice_def Let_def Math_round_div60)
qed

lemma baseRate_pos: "0 < baseRate c"
  by (cases c) (simp_all add: baseRate_simps)

lemma Math_round_mono: "x \<le> y \<Longrightarrow> Math_round x \<le> Math_round y"
  unfolding Math_round_def by (simp add: floor_mono)

lemma calculateBasePrice_mono:
  assumes "d \<le> d'"
  shows "calculateBasePrice c d \<le> calculateBasePrice c d'"
proof -
  have "max 1 (rat_of_int d / 60) \<le> max 1 (rat_of_int d' / 60)"
    using assms by (simp add: max_def divide_right_mono)
  moreover have "0 \<le> rat_of_int (baseRate c)"
    using baseRate_pos [of c] by simp
  ultimately show ?thesis
    unfolding calculateBasePrice_def Let_def
    by (intro Math_round_mono mult_left_mono)
qed

lemma calculateBasePrice_ge_rate: "baseRate c \<le> calculateBasePrice c d"
proof (cases "d \<le> 60")
  case True then show ?thesis by (simp add: calculateBasePrice_short)
next
  case False
  then have "calculateBasePrice c 60 \<le> calculateBasePrice c d"
    by (intro calculateBasePrice_mono) simp
  then show ?thesis by (simp add: calculateBasePrice_short)
qed

text \<open>
  Claim C5. The price is the base rate of the tier times \<open>max 1 (duration / 60)\<close>,
  rounded; the base rates are 500, 1500, 3000, 5000 and 8000. So every duration of at
  most 60 minutes costs what 60 minutes cost, the price does not decrease as the duration
  grows beyond 60 minutes, and the base rates increase strictly along
  \<open>PORTE_1, PORTE_2, PORTE_3, PORTE_4, PORTE_ESPECIAL\<close>.
\<close>

theorem price_model:
  "calculateBasePrice c d = Math_round (rat_of_int (baseRate c) * max 1 (rat_of_int d / 60))
   \<and> baseRate c = (case c of PORTE_1 \<Rightarrow> 500 | PORTE_2 \<Rightarrow> 1500 | PORTE_3 \<Rightarrow> 3000
                    | PORTE_4 \<Rightarrow> 5000 | PORTE_ESPECIAL \<Rightarrow> 8000)
   \<and> (d \<le> 60 \<longrightarrow> calculateBasePrice c d = calculateBasePrice c 60)
   \<and> (60 < d \<and> d \<le> d' \<longrightarrow> calculateBasePrice c d \<le> calculateBasePrice c d')
   \<and> baseRate PORTE_1 < baseRate PORTE_2 \<and> baseRate PORTE_2 < baseRate PORTE_3
   \<and> baseRate PORTE_3 < baseRate PORTE_4 \<and> baseRate PORTE_4 < baseRate PORTE_ESPECIAL"
proof -
  have "calculateBasePrice c d = Math_round (rat_of_int (baseRate c) * max 1 (rat_of_int d / 60))"
    by (simp add: calculateBasePrice_def)
  moreover have "baseRate c = (case c of PORTE_1 \<Rightarrow> 500 | PORTE_2 \<Rightarrow> 1500 | PORTE_3 \<Rightarrow> 3000
                    | PORTE_4 \<Rightarrow> 5000 | PORTE_ESPECIAL \<Rightarrow> 8000)"
    by (cases c) (simp_all add: baseRate_simps)
  moreover have "d \<le> 60 \<longrightarrow> calculateBasePrice c d = calculateBasePrice c 60"
    by (simp add: calculateBasePrice_short)
  moreover have "60 < d \<and> d \<le> d' \<longrightarrow> calculateBasePrice c d \<le> calculateBasePrice c d'"
    by (simp add: calculateBasePrice_mono)
  ultimately show ?thesis
    by (simp only: baseRate_simps) simp
qed

theorem price_model_witness:
  "(45 :: int) \<le> 60
   \<and> calculateBasePrice PORTE_3 45 = calculateBasePrice PORTE_3 60
   \<and> (60 :: int) < 90 \<and> (90 :: int) \<le> 100
   \<and> calculateBasePrice PORTE_3 90 \<le> calculateBasePrice PORTE_3 100
   \<and> calculateBasePrice PORTE_3 45 = 3000 \<and> calculateBasePrice PORTE_3 90 = 4500
   \<and> calculateBasePrice PORTE_3 100 = 5000 \<and> calculateBasePrice PORTE_1 61 = 508"
  using price_model [of PORTE_3 45 45] price_model [of PORTE_3 90 100]
  by (simp add: calculateBasePrice_long calculateBasePrice_short baseRate_simps)

section \<open>Creation, confirmation and status update\<close>

lemma requiresAudit_iff:
  "requiresAudit c \<longleftrightarrow> c = PORTE_3 \<or> c = PORTE_4 \<or> c = PORTE_ESPECIAL"
  by (simp add: requiresAudit_def)

lemma callPublisher_undeclared:
  "callPublisher env ''publishSurgeryCreated'' e w = Inl (TypeError ''publishSurgeryCreated'')"
  "callPublisher env ''publishPorteConfirmed'' e w = Inl (TypeError ''publishPorteConfirmed'')"
  "callPublisher env ''publishSurgeryStatusUpdated'' e w =
     Inl (TypeError ''publishSurgeryStatusUpdated'')"
  "callPublisher env ''publishAuditRequested'' e w = Inl (TypeError ''publishAuditRequested'')"
  by (simp_all add: callPublisher_def declaredPublishers_def)

lemma createSurgery_no_patient:
  "patients w (rq_patientId data) = None \<Longrightarrow>
   createSurgery env w data = (Inl (NotFound ''Patient not found''), w)"
  by (simp add: createSurgery_def)

lemma createSurgery_stores:
  assumes "patients w (rq_patientId data) = Some patient"
  shows "procedures (snd (createSurgery env w data)) (genId env) =
     Some \<lparr>db_id = genId env,
           db_code = rq_procedureCode data,
           db_name = rq_procedureName data,
           db_category = rq_category data,
           db_complexity = rq_complexity data,
           db_estimatedDuration = Some (rq_estimatedDuration data),
           db_basePrice =
             Some (rat_of_int
               (calculateBasePrice (rq_complexity data) (rq_estimatedDuration data))),
           db_status = SCHEDULED,
           db_patientId = rq_patientId data,
           db_requiresAuthorization = (rq_requiresAuthorization data = Some True),
           db_suggestedPort = 1,
           db_tags =
             [''surgery'', complexity_tag (rq_complexity data), rq_category data,
              rq_hospital data]\<rparr>"
    and "patients (snd (createSurgery env w data)) = patients w"
  using assms
  by (auto simp add: createSurgery_def Let_def callPublisher_undeclared
      split: option.splits)

lemma createSurgery_throws:
  "patients w (rq_patientId data) = Some patient \<Longrightarrow>
   fst (createSurgery env w data) = Inl (TypeError ''publishSurgeryCreated'')
   \<and> published (snd (createSurgery env w data)) = published w"
  by (simp add: createSurgery_def Let_def callPublisher_undeclared)

text \<open>
  Claim C1, as the code has it. When the patient of the request does not exist,
  \<open>createSurgery\<close> fails with \<open>NotFound\<close> and leaves the world as it was: no row is written
  and no event is published. When the patient exists, the row stored under the new
  identifier has status \<open>SCHEDULED\<close>, the price that \<open>calculateBasePrice\<close> gives for the
  submitted complexity and duration, the submitted complexity, and the authorization flag
  of the request; read back, the procedure has status \<open>SCHEDULED\<close>, that price,
  authorization status \<open>PENDING\<close> if the request asks for authorization and
  \<open>AUTH_NOT_REQUIRED\<close> otherwise, and audit status \<open>PENDING_AUDIT\<close> if its complexity is
  \<open>PORTE_3\<close>, \<open>PORTE_4\<close> or \<open>PORTE_ESPECIAL\<close> and \<open>AUDIT_NOT_REQUIRED\<close> otherwise.
\<close>

theorem createSurgery_outcome:
  "(patients w (rq_patientId data) = None \<longrightarrow>
      createSurgery env w data = (Inl (NotFound ''Patient not found''), w))
   \<and> (patients w (rq_patientId data) = Some patient \<longrightarrow>
        (let w' = snd (createSurgery env w data)
         in map_option db_status (procedures w' (genId env)) = Some SCHEDULED
          \<and> map_option db_basePrice (procedures w' (genId env)) =
              Some (Some (rat_of_int
                (calculateBasePrice (rq_complexity data) (rq_estimatedDuration data))))
          \<and> map_option db_complexity (procedures w' (genId env)) = Some (rq_complexity data)
          \<and> map_option db_requiresAuthorization (procedures w' (genId env)) =
              Some (rq_requiresAuthorization data = Some True)
          \<and> (\<exists>sp. getSurgeryById w' (genId env) = Inr sp
                \<and> status sp = SCHEDULED
                \<and> basePrice sp =
                    rat_of_int
                      (calculateBasePrice (rq_complexity data) (rq_estimatedDuration data))
                \<and> authorizationStatus sp =
                    (if rq_requiresAuthorization data = Some True then PENDING
                     else AUTH_NOT_REQUIRED)
                \<and> auditStatus sp =
                    (if rq_complexity data \<in> {PORTE_3, PORTE_4, PORTE_ESPECIAL}
                     then PENDING_AUDIT else AUDIT_NOT_REQUIRED))))"
proof (intro conjI impI)
  assume "patients w (rq_patientId data) = None"
  then show "createSurgery env w data = (Inl (NotFound ''Patient not found''), w)"
    by (rule createSurgery_no_patient)
next
  assume a: "patients w (rq_patientId data) = Some patient"
  show "let w' = snd (createSurgery env w data)
         in map_option db_status (procedures w' (genId env)) = Some SCHEDULED
          \<and> map_option db_basePrice (procedures w' (genId env)) =
              Some (Some (rat_of_int
                (calculateBasePrice (rq_complexity data) (rq_estimatedDuration data))))
          \<and> map_option db_complexity (procedures w' (genId env)) = Some (rq_complexity data)
          \<and> map_option db_requiresAuthorization (procedures w' (genId env)) =
              Some (rq_requiresAuthorization data = Some True)
          \<and> (\<exists>sp. getSurgeryById w' (genId env) = Inr sp
                \<and> status sp = SCHEDULED
                \<and> basePrice sp =
                    rat_of_int
                      (calculateBasePrice (rq_complexity data) (rq_estimatedDuration data))
                \<and> authorizationStatus sp =
                    (if rq_requiresAuthorization data = Some True then PENDING
                     else AUTH_NOT_REQUIRED)
                \<and> auditStatus sp =
                    (if rq_complexity data \<in> {PORTE_3, PORTE_4, PORTE_ESPECIAL}
                     then PENDING_AUDIT else AUDIT_NOT_REQUIRED))"
    unfolding Let_def
    by (simp add: createSurgery_stores [OF a] getSurgeryById_def mapProcedureToSurgery_def
        requiresAudit_iff)
qed

theorem createSurgery_outcome_witness:
  "patients world0 (rq_patientId (surgery_request ''pat-9'' PORTE_3 90)) = None
   \<and> createSurgery bus_up world0 (surgery_request ''pat-9'' PORTE_3 90) =
       (Inl (NotFound ''Patient not found''), world0)
   \<and> patients world0 (rq_patientId (surgery_request ''pat-1'' PORTE_ESPECIAL 90)) =
       Some patient_ana
   \<and> map_option db_status
       (procedures (snd (createSurgery bus_up world0 (surgery_request ''pat-1'' PORTE_ESPECIAL 90)))
          ''proc-1'') = Some SCHEDULED
   \<and> map_option db_basePrice
       (procedures (snd (createSurgery bus_up world0 (surgery_request ''pat-1'' PORTE_ESPECIAL 90)))
          ''proc-1'') = Some (Some 12000)
   \<and> (\<exists>sp. getSurgeryById
              (snd (createSurgery bus_up world0 (surgery_request ''pat-1'' PORTE_ESPECIAL 90)))
              ''proc-1'' = Inr sp
          \<and> status sp = SCHEDULED
          \<and> basePrice sp = 12000
          \<and> authorizationStatus sp = PENDING
          \<and> auditStatus sp = PENDING_AUDIT)"
proof -
  have none: "patients world0 (rq_patientId (surgery_request ''pat-9'' PORTE_3 90)) = None"
    by (simp add: world0_def surgery_request_def)
  have some: "patients world0 (rq_patientId (surgery_request ''pat-1'' PORTE_ESPECIAL 90)) =
      Some patient_ana"
    by (simp add: world0_def surgery_request_def)
  have price: "calculateBasePrice PORTE_ESPECIAL 90 = 12000"
    by (simp add: calculateBasePrice_long baseRate_simps)
  have id: "genId bus_up = ''proc-1''"
    by (simp add: bus_up_def)
  from none createSurgery_outcome [where w = world0 and env = bus_up
      and data = "surgery_request ''pat-9'' PORTE_3 90"]
  have "createSurgery bus_up world0 (surgery_request ''pat-9'' PORTE_3 90) =
       (Inl (NotFound ''Patient not found''), world0)"
    by blast
  moreover
  from some
    createSurgery_outcome [where w = world0 and env = bus_up and patient = patient_ana
      and data = "surgery_request ''pat-1'' PORTE_ESPECIAL 90"]
  have "let w' = snd (createSurgery bus_up world0 (surgery_request ''pat-1'' PORTE_ESPECIAL 90))
     in map_option db_status (procedures w' ''proc-1'') = Some SCHEDULED
      \<and> map_option db_basePrice (procedures w' ''proc-1'') = Some (Some 12000)
      \<and> (\<exists>sp. getSurgeryById w' ''proc-1'' = Inr sp
            \<and> status sp = SCHEDULED
            \<and> basePrice sp = 12000
            \<and> authorizationStatus sp = PENDING
            \<and> auditStatus sp = PENDING_AUDIT)"
    unfolding Let_def by (simp add: surgery_request_def price id)
  ultimately show ?thesis
    using none some unfolding Let_def by blast
qed

text \<open>
  The claim fails twice. The audit status \<open>PENDING_AUDIT\<close> is not stored: the row has no
  such column, and a \<open>PORTE_1\<close> procedure reads back with \<open>AUDIT_NOT_REQUIRED\<close>. And no
  \<open>AuditRequested\<close> event is emitted for \<open>PORTE_4\<close>: after the row is written, the call of
  the undeclared \<open>publishSurgeryCreated\<close> throws, \<open>createSurgery\<close> rethrows it, and nothing
  has been published.
\<close>

theorem createSurgery_audit_status_counterexample:
  "map_sum id auditStatus
     (getSurgeryById (snd (createSurgery bus_up world0 (surgery_request ''pat-1'' PORTE_1 45)))
        ''proc-1'') =
     Inr AUDIT_NOT_REQUIRED
   \<and> fst (createSurgery bus_up world0 (surgery_request ''pat-1'' PORTE_4 45)) =
       Inl (TypeError ''publishSurgeryCreated'')
   \<and> published (snd (createSurgery bus_up world0 (surgery_request ''pat-1'' PORTE_4 45))) = []"
  by (simp add: createSurgery_def getSurgeryById_def mapProcedureToSurgery_def Let_def
      callPublisher_undeclared requiresAudit_def world0_def bus_up_def surgery_request_def)

lemma confirmPorte_stores:
  "procedures w i = Some procedure \<Longrightarrow>
   procedures (snd (confirmPorte env w i conf)) i =
     Some (procedure\<lparr>db_complexity := cf_complexity conf,
                      db_estimatedDuration := Some (cf_estimatedDuration conf),
                      db_basePrice := Some (cf_basePrice conf)\<rparr>)"
  by (simp add: confirmPorte_def Let_def callPublisher_undeclared)

text \<open>
  Claim C4. For a procedure that exists, \<open>getSurgeryById\<close> after \<open>confirmPorte\<close> returns
  the complexity, the duration and the price of the confirmation, whatever happens to
  the event. The price is the one supplied, for every supplied value, so it is not
  recomputed by \<open>calculateBasePrice\<close>.
\<close>

theorem confirmPorte_roundtrip:
  "procedures w i = Some procedure \<Longrightarrow>
   \<exists>sp. getSurgeryById (snd (confirmPorte env w i conf)) i = Inr sp
      \<and> complexity sp = cf_complexity conf
      \<and> estimatedDuration sp = cf_estimatedDuration conf
      \<and> basePrice sp = cf_basePrice conf"
  by (simp add: getSurgeryById_def confirmPorte_stores mapProcedureToSurgery_def)

theorem confirmPorte_roundtrip_witness:
  "procedures world1 ''proc-1'' = Some stored_row
   \<and> calculateBasePrice PORTE_3 120 = 6000
   \<and> (\<exists>sp. getSurgeryById (snd (confirmPorte bus_up world1 ''proc-1'' (confirmation (2469 / 2))))
              ''proc-1'' = Inr sp
          \<and> complexity sp = PORTE_3
          \<and> estimatedDuration sp = 120
          \<and> basePrice sp = 2469 / 2)"
proof -
  have h: "procedures world1 ''proc-1'' = Some stored_row"
    by (simp add: world1_def)
  have p: "calculateBasePrice PORTE_3 120 = 6000"
    by (simp add: calculateBasePrice_long baseRate_simps)
  from confirmPorte_roundtrip [OF h, of bus_up "confirmation (2469 / 2)"]
  have "\<exists>sp. getSurgeryById (snd (confirmPorte bus_up world1 ''proc-1'' (confirmation (2469 / 2))))
              ''proc-1'' = Inr sp
          \<and> complexity sp = PORTE_3
          \<and> estimatedDuration sp = 120
          \<and> basePrice sp = 2469 / 2"
    by (simp add: confirmation_def)
  with h p show ?thesis by blast
qed

text \<open>
  Claim C6, as the code has it. The price computed at creation is positive for every
  complexity and every duration, and it is the price of the stored row. \<open>confirmPorte\<close>
  has no check on the price: the stored price is the supplied one, so it is non-negative
  exactly when the supplied price is.
\<close>

theorem basePrice_sign:
  "0 < calculateBasePrice c d
   \<and> (patients w (rq_patientId data) = Some patient \<longrightarrow>
        map_option db_basePrice (procedures (snd (createSurgery env w data)) (genId env)) =
          Some (Some (rat_of_int
            (calculateBasePrice (rq_complexity data) (rq_estimatedDuration data)))))
   \<and> (procedures w i = Some procedure \<longrightarrow>
        map_option db_basePrice (procedures (snd (confirmPorte env w i conf)) i) =
          Some (Some (cf_basePrice conf)))"
proof (intro conjI impI)
  show "0 < calculateBasePrice c d"
    using baseRate_pos [of c] calculateBasePrice_ge_rate [of c d] by linarith
next
  assume "patients w (rq_patientId data) = Some patient"
  then show "map_option db_basePrice (procedures (snd (createSurgery env w data)) (genId env)) =
          Some (Some (rat_of_int
            (calculateBasePrice (rq_complexity data) (rq_estimatedDuration data))))"
    by (simp add: createSurgery_stores)
next
  assume "procedures w i = Some procedure"
  then show "map_option db_basePrice (procedures (snd (confirmPorte env w i conf)) i) =
          Some (Some (cf_basePrice conf))"
    by (simp add: confirmPorte_stores)
qed

theorem basePrice_sign_witness:
  "0 < calculateBasePrice PORTE_1 (- 5)
   \<and> patients world0 (rq_patientId (surgery_request ''pat-1'' PORTE_1 (- 5))) = Some patient_ana
   \<and> map_option db_basePrice
       (procedures (snd (createSurgery bus_up world0 (surgery_request ''pat-1'' PORTE_1 (- 5))))
          (genId bus_up)) = Some (Some 500)
   \<and> procedures world1 ''proc-1'' = Some stored_row
   \<and> map_option db_basePrice
       (procedures (snd (confirmPorte bus_up world1 ''proc-1'' (confirmation 7000))) ''proc-1'') =
       Some (Some 7000)"
proof -
  have a: "patients world0 (rq_patientId (surgery_request ''pat-1'' PORTE_1 (- 5))) =
      Some patient_ana"
    by (simp add: world0_def surgery_request_def)
  have b: "procedures world1 ''proc-1'' = Some stored_row"
    by (simp add: world1_def)
  have p: "calculateBasePrice PORTE_1 (- 5) = 500"
    by (simp add: calculateBasePrice_short baseRate_simps)
  from a b p
    basePrice_sign [where c = PORTE_1 and d = "- 5" and w = world0 and env = bus_up
      and data = "surgery_request ''pat-1'' PORTE_1 (- 5)" and patient = patient_ana]
    basePrice_sign [where w = world1 and env = bus_up and i = "''proc-1''"
      and procedure = stored_row and conf = "confirmation 7000"]
  show ?thesis
    by (simp add: surgery_request_def confirmation_def)
qed

text \<open>A confirmation with the price \<open>-100\<close> is not refused: the price is stored.\<close>

theorem confirmPorte_negative_price_counterexample:
  "map_option db_basePrice
     (procedures (snd (confirmPorte bus_up world1 ''proc-1'' (confirmation (- 100))))
        ''proc-1'') =
     Some (Some (- 100))"
  by (simp add: confirmPorte_def Let_def callPublisher_undeclared
      world1_def world0_def confirmation_def stored_row_def)

text \<open>
  Claim C7, evaluated on a connected bus whose sender delivers. \<open>createSurgery\<close>,
  \<open>confirmPorte\<close> and \<open>updateSurgeryStatus\<close> each write the row first and then call a
  publisher that \<open>EventBusService\<close> does not declare; the \<open>TypeError\<close> of that call is
  rethrown, so the caller sees a failure although the row is stored. Only
  \<open>createAuditRequest\<close> is shielded: the same failure of \<open>publishAuditRequested\<close> is
  caught there, nothing is thrown and the world is left as it was.
\<close>

theorem publish_failure_escalates:
  "fst (createSurgery bus_up world0 (surgery_request ''pat-1'' PORTE_1 45)) =
     Inl (TypeError ''publishSurgeryCreated'')
   \<and> map_option db_status
       (procedures (snd (createSurgery bus_up world0 (surgery_request ''pat-1'' PORTE_1 45)))
          ''proc-1'') = Some SCHEDULED
   \<and> fst (confirmPorte bus_up world1 ''proc-1'' (confirmation 6000)) =
       Inl (TypeError ''publishPorteConfirmed'')
   \<and> map_option db_complexity
       (procedures (snd (confirmPorte bus_up world1 ''proc-1'' (confirmation 6000)))
          ''proc-1'') = Some PORTE_3
   \<and> fst (updateSurgeryStatus bus_up world1 ''proc-1'' CONFIRMED ''nurse-1'') =
       Inl (TypeError ''publishSurgeryStatusUpdated'')
   \<and> map_option db_status
       (procedures (snd (updateSurgeryStatus bus_up world1 ''proc-1'' CONFIRMED ''nurse-1''))
          ''proc-1'') = Some CONFIRMED
   \<and> createAuditRequest bus_up (mapProcedureToSurgery (Some patient_ana) stored_row) world1 =
       world1"
  by (simp add: createSurgery_def confirmPorte_def updateSurgeryStatus_def Let_def
      callPublisher_undeclared createAuditRequest_def
      world1_def world0_def bus_up_def confirmation_def stored_row_def surgery_request_def)

text \<open>
  Claim C9, as the code has it. No duration makes the price fail: \<open>createSurgery\<close> never
  answers \<open>BadRequest\<close>, and for an existing patient it stores the price of
  \<open>calculateBasePrice\<close> whatever the duration is; that price is at least the base rate of
  the tier, and it is the base rate for every duration of at most 60 minutes, a negative
  one included.
\<close>

theorem price_never_rejects:
  "fst (createSurgery env w data) \<noteq> Inl (BadRequest m)
   \<and> (patients w (rq_patientId data) = Some patient \<longrightarrow>
        map_option db_basePrice (procedures (snd (createSurgery env w data)) (genId env)) =
          Some (Some (rat_of_int
            (calculateBasePrice (rq_complexity data) (rq_estimatedDuration data)))))
   \<and> (d \<le> 60 \<longrightarrow> calculateBasePrice c d = baseRate c)
   \<and> baseRate c \<le> calculateBasePrice c d"
proof (intro conjI impI)
  show "fst (createSurgery env w data) \<noteq> Inl (BadRequest m)"
    by (simp add: createSurgery_def Let_def callPublisher_undeclared split: option.splits)
next
  assume "patients w (rq_patientId data) = Some patient"
  then show "map_option db_basePrice (procedures (snd (createSurgery env w data)) (genId env)) =
          Some (Some (rat_of_int
            (calculateBasePrice (rq_complexity data) (rq_estimatedDuration data))))"
    by (simp add: createSurgery_stores)
next
  assume "d \<le> 60"
  then show "calculateBasePrice c d = baseRate c"
    by (rule calculateBasePrice_short)
next
  show "baseRate c \<le> calculateBasePrice c d"
    by (rule calculateBasePrice_ge_rate)
qed

theorem price_never_rejects_witness:
  "patients world0 (rq_patientId (surgery_request ''pat-1'' PORTE_2 (- 30))) = Some patient_ana
   \<and> map_option db_basePrice
       (procedures (snd (createSurgery bus_up world0 (surgery_request ''pat-1'' PORTE_2 (- 30))))
          (genId bus_up)) = Some (Some 1500)
   \<and> (- 30 :: int) \<le> 60
   \<and> calculateBasePrice PORTE_2 (- 30) = 1500"
proof -
  have h: "patients world0 (rq_patientId (surgery_request ''pat-1'' PORTE_2 (- 30))) =
      Some patient_ana"
    by (simp add: world0_def surgery_request_def)
  have le: "(- 30 :: int) \<le> 60"
    by simp
  note t = price_never_rejects [where w = world0 and env = bus_up and patient = patient_ana
      and data = "surgery_request ''pat-1'' PORTE_2 (- 30)" and c = PORTE_2 and d = "- 30"]
  from t le have p: "calculateBasePrice PORTE_2 (- 30) = 1500"
    by (simp add: baseRate_simps)
  from t h have "map_option db_basePrice
       (procedures (snd (createSurgery bus_up world0 (surgery_request ''pat-1'' PORTE_2 (- 30))))
          (genId bus_up)) =
       Some (Some (rat_of_int
         (calculateBasePrice (rq_complexity (surgery_request ''pat-1'' PORTE_2 (- 30)))
            (rq_estimatedDuration (surgery_request ''pat-1'' PORTE_2 (- 30))))))"
    by blast
  then have "map_option db_basePrice
       (procedures (snd (createSurgery bus_up world0 (surgery_request ''pat-1'' PORTE_2 (- 30))))
          (genId bus_up)) = Some (Some 1500)"
    by (simp add: surgery_request_def p)
  with h le p show ?thesis by blast
qed

text \<open>
  A duration of \<open>-5\<close> minutes is priced at the base rate, and \<open>createSurgery\<close> stores a row
  with that price.
\<close>

theorem negative_duration_priced_counterexample:
  "calculateBasePrice PORTE_1 (- 5) = 500
   \<and> map_option db_basePrice
       (procedures (snd (createSurgery bus_up world0 (surgery_request ''pat-1'' PORTE_1 (- 5))))
          ''proc-1'') = Some (Some 500)"
  by (simp add: createSurgery_def Let_def callPublisher_undeclared calculateBasePrice_short
      baseRate_simps world0_def bus_up_def surgery_request_def)

section \<open>Port validation\<close>

lemma ascii_simps:
  "ascii [] = []" "ascii (c # cs) = of_char c # ascii cs"
  by (simp_all add: ascii_def)

lemma ascii_Nil_iff: "ascii s = [] \<longleftrightarrow> s = []"
  by (simp add: ascii_def)

lemma toward_zero_examples:
  "toward_zero 4 = 4" "toward_zero (7 / 2) = 3" "toward_zero (- (7 / 2)) = - 3"
  "toward_zero (1 / 2) = 0"
  by (simp_all add: toward_zero_def floor_eq_iff ceiling_eq_iff)

lemma parseInt_number:
  "r \<noteq> 0 \<Longrightarrow> 1 / 1000000 \<le> \<bar>r\<bar> \<Longrightarrow> \<bar>r\<bar> < 10 ^ 21 \<Longrightarrow>
   parseInt rt (JNumber (Finite r)) = Finite (rat_of_int (toward_zero r))"
  by (simp add: parseInt_def)

lemma parseInt_examples:
  "parseInt rt (JStr (ascii ''abc'')) = NaN"
  "parseInt rt (JStr (ascii ''3'')) = Finite 3"
  "parseInt rt (JStr (ascii '' -12px'')) = Finite (- 12)"
  "parseInt rt (JStr (ascii ''0x1F'')) = Finite 31"
  "parseInt rt (JStr (160 # 65279 # ascii ''7'')) = Finite 7"
  "parseInt rt (JNumber (Finite 4)) = Finite 4"
  "parseInt rt (JNumber (Finite (7 / 2))) = Finite 3"
  "parseInt rt (JNumber (Finite (- 7 / 2))) = Finite (- 3)"
  "parseInt rt (JNumber (Finite (1 / 2))) = Finite 0"
  "parseInt rt (JNumber (Finite 0)) = Finite 0"
  "parseInt engine (JNumber (Finite (3 * 10 ^ 21))) = Finite 3"
  by (simp_all add: parseInt_def parseInt_string_def is_space_def is_digit_def digit_val_def
      toward_zero_examples ascii_simps Let_def engine_def)

lemma falsy_simps:
  "falsy JUndefined" "falsy JNull" "falsy (JBool b) = (\<not> b)"
  "falsy (JNumber n) = (n = NaN \<or> n = Finite 0)" "falsy (JStr s) = (s = [])"
  by (simp_all add: falsy_def)

lemma porteSeverity_valid: "porteSeverity True n e = ''INFO''"
  by (simp add: porteSeverity_def)

lemma porteSeverity_invalid:
  "(porteSeverity False (Finite p) e = ''HIGH'') = (2 \<le> \<bar>p - rat_of_int e\<bar>)"
  "(porteSeverity False (Finite p) e = ''MEDIUM'') = (\<bar>p - rat_of_int e\<bar> = 1)"
  "(porteSeverity False (Finite p) e = ''LOW'') =
     (\<not> 2 \<le> \<bar>p - rat_of_int e\<bar> \<and> \<bar>p - rat_of_int e\<bar> \<noteq> 1)"
  "porteSeverity False (Finite p) e \<noteq> ''INFO''"
  by (auto simp add: porteSeverity_def Let_def num_minus_def Math_abs_def num_ge_def)

lemma findActiveRule_examples:
  "findActiveRule [rule_2_3] (ascii ''31005497'') = Some rule_2_3"
  "findActiveRule [rule_2_3] (ascii ''40000000'') = None"
  "findActiveRule [] c = None"
  by (simp_all add: findActiveRule_def rule_2_3_def ascii_simps)

text \<open>
  Claim C2, as the code has it. For a non-empty code with an active rule and a reported
  port that passes the guard (it is not falsy, so not the number 0) and that \<open>parseInt\<close>
  reads as the finite number \<open>p\<close> (a whole number below \<open>10\<^sup>2\<^sup>1\<close> as itself, a fractional
  number as its integer part, a string as the integer it starts with), the verdict is
  valid if and
  only if \<open>minimumPort \<le> p \<le> maximumPort\<close>, and its expected port is the recommended
  port. A valid verdict has severity \<open>INFO\<close>; an invalid one has \<open>HIGH\<close> if and only if
  \<open>\<bar>p - recommendedPort\<bar> \<ge> 2\<close>, \<open>MEDIUM\<close> if and only if the distance is 1, and
  \<open>LOW\<close> otherwise.
\<close>

theorem validatePorte_with_rule:
  assumes "findActiveRule rules c = Some rule" and "c \<noteq> []"
    and "\<not> falsy reported" and "parseInt rt reported = Finite p"
  shows "\<exists>v. validatePorte rt rules (JStr c) reported = Inr v
     \<and> (isValid v \<longleftrightarrow>
          rat_of_int (minimumPort rule) \<le> p \<and> p \<le> rat_of_int (maximumPort rule))
     \<and> expectedPorte v = JNumber (Finite (rat_of_int (recommendedPort rule)))
     \<and> (isValid v \<longrightarrow> severity v = ''INFO'')
     \<and> (\<not> isValid v \<longrightarrow>
          (severity v = ''HIGH'' \<longleftrightarrow> 2 \<le> \<bar>p - rat_of_int (recommendedPort rule)\<bar>)
        \<and> (severity v = ''MEDIUM'' \<longleftrightarrow> \<bar>p - rat_of_int (recommendedPort rule)\<bar> = 1)
        \<and> (severity v = ''LOW'' \<longleftrightarrow>
             \<not> 2 \<le> \<bar>p - rat_of_int (recommendedPort rule)\<bar>
             \<and> \<bar>p - rat_of_int (recommendedPort rule)\<bar> \<noteq> 1))"
proof -
  define V where
    "V = (rat_of_int (minimumPort rule) \<le> p \<and> p \<le> rat_of_int (maximumPort rule))"
  have eq: "validatePorte rt rules (JStr c) reported =
      Inr \<lparr>isValid = V,
           v_procedureCode = c,
           reportedPorte = JNumber (Finite p),
           expectedPorte = JNumber (Finite (rat_of_int (recommendedPort rule))),
           minimumPorte = Some (minimumPort rule),
           maximumPorte = Some (maximumPort rule),
           severity = porteSeverity V (Finite p) (recommendedPort rule),
           message =
             (if V then WithinRange else Divergence (recommendedPort rule) (Finite p))\<rparr>"
    using assms
    by (simp add: validatePorte_def falsy_simps Let_def V_def num_ge_def num_le_def)
  show ?thesis
    unfolding eq V_def [symmetric]
    by (cases V) (simp_all add: porteSeverity_valid porteSeverity_invalid)
qed

theorem validatePorte_with_rule_witness:
  "findActiveRule [rule_2_3] (ascii ''31005497'') = Some rule_2_3
   \<and> ascii ''31005497'' \<noteq> []
   \<and> \<not> falsy (JNumber (Finite 4)) \<and> parseInt engine (JNumber (Finite 4)) = Finite 4
   \<and> \<not> falsy (JStr (ascii ''3'')) \<and> parseInt engine (JStr (ascii ''3'')) = Finite 3
   \<and> (\<exists>v. validatePorte engine [rule_2_3] (JStr (ascii ''31005497'')) (JNumber (Finite 4)) =
            Inr v
          \<and> isValid v = False
          \<and> expectedPorte v = JNumber (Finite 2)
          \<and> severity v = ''HIGH'')
   \<and> (\<exists>v. validatePorte engine [rule_2_3] (JStr (ascii ''31005497'')) (JStr (ascii ''3'')) =
            Inr v
          \<and> isValid v = True
          \<and> expectedPorte v = JNumber (Finite 2)
          \<and> severity v = ''INFO'')"
proof -
  have r: "findActiveRule [rule_2_3] (ascii ''31005497'') = Some rule_2_3"
    and c: "ascii ''31005497'' \<noteq> []"
    and n4: "\<not> falsy (JNumber (Finite 4))"
    and p4: "parseInt engine (JNumber (Finite 4)) = Finite 4"
    and n3: "\<not> falsy (JStr (ascii ''3''))"
    and p3: "parseInt engine (JStr (ascii ''3'')) = Finite 3"
    by (simp_all add: findActiveRule_examples falsy_simps parseInt_examples ascii_Nil_iff)
  from validatePorte_with_rule [OF r c n4 p4]
  have a: "\<exists>v. validatePorte engine [rule_2_3] (JStr (ascii ''31005497''))
            (JNumber (Finite 4)) = Inr v
          \<and> isValid v = False
          \<and> expectedPorte v = JNumber (Finite 2)
          \<and> severity v = ''HIGH''"
    by (auto simp add: rule_2_3_def)
  from validatePorte_with_rule [OF r c n3 p3]
  have b: "\<exists>v. validatePorte engine [rule_2_3] (JStr (ascii ''31005497''))
            (JStr (ascii ''3'')) = Inr v
          \<and> isValid v = True
          \<and> expectedPorte v = JNumber (Finite 2)
          \<and> severity v = ''INFO''"
    by (auto simp add: rule_2_3_def)
  from r c n4 p4 n3 p3 a b show ?thesis by blast
qed

text \<open>
  With the rule \<open>[2, 3]\<close> recommending 2, the reported port 0 is numeric, out of range
  and at distance 2, yet no verdict is produced: the guard takes 0 for a missing field.
  And the reported port 3.5 is numeric and above the maximum 3, yet the verdict is valid:
  the port is compared after \<open>parseInt\<close>, which reads 3.
\<close>

theorem validatePorte_zero_with_rule_counterexample:
  "validatePorte engine [rule_2_3] (JStr (ascii ''31005497'')) (JNumber (Finite 0)) =
     Inl (BadRequest ''procedureCode and reportedPorte are required'')
   \<and> rat_of_int (maximumPort rule_2_3) < 7 / 2
   \<and> map_sum id isValid
       (validatePorte engine [rule_2_3] (JStr (ascii ''31005497'')) (JNumber (Finite (7 / 2)))) =
       Inr True"
  by (simp add: validatePorte_def falsy_simps findActiveRule_examples parseInt_examples
      Let_def ascii_Nil_iff num_ge_def num_le_def) (simp add: rule_2_3_def)

text \<open>
  Claim C3, as the code has it. For a non-empty code with no active rule and every
  reported port that passes the guard (any value that is not falsy, numeric or not), the
  verdict is valid, has severity \<open>INFO\<close>, and its expected port is the reported value.
\<close>

theorem validatePorte_no_rule:
  assumes "findActiveRule rules c = None" and "c \<noteq> []" and "\<not> falsy reported"
  shows "\<exists>v. validatePorte rt rules (JStr c) reported = Inr v
     \<and> isValid v \<and> severity v = ''INFO'' \<and> expectedPorte v = reported"
  using assms by (simp add: validatePorte_def falsy_simps)

theorem validatePorte_no_rule_witness:
  "findActiveRule [rule_2_3] (ascii ''40000000'') = None
   \<and> ascii ''40000000'' \<noteq> []
   \<and> \<not> falsy (JStr (ascii ''abc''))
   \<and> (\<exists>v. validatePorte engine [rule_2_3] (JStr (ascii ''40000000'')) (JStr (ascii ''abc'')) =
            Inr v
          \<and> isValid v \<and> severity v = ''INFO'' \<and> expectedPorte v = JStr (ascii ''abc''))"
proof -
  have r: "findActiveRule [rule_2_3] (ascii ''40000000'') = None"
    and c: "ascii ''40000000'' \<noteq> []"
    and n: "\<not> falsy (JStr (ascii ''abc''))"
    by (simp_all add: findActiveRule_examples falsy_simps ascii_Nil_iff)
  from r c n validatePorte_no_rule [OF r c n, of engine] show ?thesis by blast
qed

text \<open>Without any rule, the reported port 0 is refused by the guard.\<close>

theorem validatePorte_zero_no_rule_counterexample:
  "validatePorte engine [] (JStr (ascii ''31005497'')) (JNumber (Finite 0)) =
     Inl (BadRequest ''procedureCode and reportedPorte are required'')"
  by (simp add: validatePorte_def falsy_simps)

text \<open>
  Claim C10, as the code has it. When the code or the reported port is falsy (absent,
  \<open>null\<close>, \<open>false\<close>, 0, \<open>NaN\<close> or the empty string), \<open>validatePorte\<close> answers
  \<open>BadRequest\<close> whatever the rules are, so before any lookup; and it answers \<open>BadRequest\<close>
  in no other case.
\<close>

theorem validatePorte_guard:
  "(falsy code \<or> falsy reported \<longrightarrow>
      validatePorte rt rules code reported =
        Inl (BadRequest ''procedureCode and reportedPorte are required''))
   \<and> (validatePorte rt rules code reported = Inl (BadRequest m) \<longrightarrow>
        falsy code \<or> falsy reported)"
  by (auto simp add: validatePorte_def Let_def split: jsval.splits option.splits)

theorem validatePorte_guard_witness:
  "falsy JUndefined
   \<and> validatePorte engine [rule_2_3] JUndefined (JNumber (Finite 3)) =
       Inl (BadRequest ''procedureCode and reportedPorte are required'')
   \<and> falsy (JStr [])
   \<and> validatePorte engine [rule_2_3] (JStr (ascii ''31005497'')) (JStr []) =
       Inl (BadRequest ''procedureCode and reportedPorte are required'')"
proof -
  have a: "falsy JUndefined" and b: "falsy (JStr [])"
    by (simp_all add: falsy_simps)
  from a validatePorte_guard [of JUndefined "JNumber (Finite 3)" engine "[rule_2_3]"]
  have "validatePorte engine [rule_2_3] JUndefined (JNumber (Finite 3)) =
       Inl (BadRequest ''procedureCode and reportedPorte are required'')"
    by blast
  moreover
  from b validatePorte_guard [of "JStr (ascii ''31005497'')" "JStr []" engine "[rule_2_3]"]
  have "validatePorte engine [rule_2_3] (JStr (ascii ''31005497'')) (JStr []) =
       Inl (BadRequest ''procedureCode and reportedPorte are required'')"
    by blast
  ultimately show ?thesis using a b by blast
qed

text \<open>
  The reported port \<open>abc\<close> is present and not numeric. Without a rule it is accepted with
  a valid verdict that expects \<open>abc\<close>; with a rule it reads as \<open>NaN\<close> and the verdict is
  invalid with severity \<open>LOW\<close>.
\<close>

theorem validatePorte_non_numeric_counterexample:
  "map_sum id isValid
     (validatePorte engine [] (JStr (ascii ''31005497'')) (JStr (ascii ''abc''))) = Inr True
   \<and> map_sum id expectedPorte
       (validatePorte engine [] (JStr (ascii ''31005497'')) (JStr (ascii ''abc''))) =
       Inr (JStr (ascii ''abc''))
   \<and> map_sum id isValid
       (validatePorte engine [rule_2_3] (JStr (ascii ''31005497'')) (JStr (ascii ''abc''))) =
       Inr False
   \<and> map_sum id severity
       (validatePorte engine [rule_2_3] (JStr (ascii ''31005497'')) (JStr (ascii ''abc''))) =
       Inr ''LOW''"
  by (simp add: validatePorte_def falsy_simps findActiveRule_examples
      Let_def parseInt_examples porteSeverity_def num_ge_def num_le_def num_minus_def
      Math_abs_def ascii_Nil_iff)

section \<open>Efficiency metrics\<close>

lemma tallyProcedure_no_prazo:
  "no_prazo (tallyProcedure acc p) = no_prazo acc + (if onTime p then 1 else 0)"
  by (simp add: tallyProcedure_def onTime_def delayHours_def Let_def split: option.splits)

lemma tallyProcedure_atrasados:
  "atrasados (tallyProcedure acc p) = atrasados acc + (if late p then 1 else 0)"
  by (simp add: tallyProcedure_def late_def delayHours_def Let_def split: option.splits)

lemma tallyProcedure_total_atraso:
  "total_atraso (tallyProcedure acc p) = total_atraso acc + lateDelay p"
  by (simp add: tallyProcedure_def lateDelay_def delayHours_def Let_def split: option.splits)

lemma foldl_no_prazo:
  "no_prazo (foldl tallyProcedure acc ps) = no_prazo acc + length (filter onTime ps)"
  by (induction ps arbitrary: acc) (simp_all add: tallyProcedure_no_prazo)

lemma foldl_atrasados:
  "atrasados (foldl tallyProcedure acc ps) = atrasados acc + length (filter late ps)"
  by (induction ps arbitrary: acc) (simp_all add: tallyProcedure_atrasados)

lemma foldl_total_atraso:
  "total_atraso (foldl tallyProcedure acc ps) = total_atraso acc + sum_list (map lateDelay ps)"
  by (induction ps arbitrary: acc) (simp_all add: tallyProcedure_total_atraso)

lemma delay_classes:
  assumes "scheduledDate p = Some s" and "performedDate p = Some t"
  shows "onTime p \<longleftrightarrow> t - s \<le> 3600000"
    and "late p \<longleftrightarrow> \<not> onTime p"
    and "late p \<Longrightarrow> lateDelay p = rat_of_int (t - s) / 3600000"
proof -
  have "(rat_of_int (t - s) / 3600000 \<le> 1) = (t - s \<le> 3600000)"
    by (simp add: divide_le_eq) linarith
  then show "onTime p \<longleftrightarrow> t - s \<le> 3600000"
    using assms by (simp add: onTime_def delayHours_def)
  show "late p \<longleftrightarrow> \<not> onTime p"
    using assms by (auto simp add: onTime_def late_def delayHours_def)
  show "late p \<Longrightarrow> lateDelay p = rat_of_int (t - s) / 3600000"
    using assms by (simp add: late_def lateDelay_def delayHours_def)
qed

lemma no_dates_not_onTime: "delayHours p = None \<Longrightarrow> \<not> onTime p"
  by (simp add: onTime_def)

text \<open>
  Claim C8, as the code has it. Among the procedures of the window, those with both
  dates are counted on time if and only if \<open>performedDate - scheduledDate\<close> is at most
  one hour (3600000 ms), and late otherwise. The punctuality rate is the on-time count
  over the total times 100, where the total is the number of all the procedures the
  query returns for the window, with or without a scheduled date; it is 0 when the
  window is empty, and 0 when no procedure of the window has both dates. The average
  delay is the sum of the delays of the late procedures, in hours, over their number,
  and 0 when none is late.
\<close>

theorem getEfficiencyMetrics_punctuality:
  "let procs = filter (inWindow hId startDate endDate) rows;
       m = getEfficiencyMetrics hId startDate endDate rows
   in procedimentos_no_prazo m = length (filter onTime procs)
    \<and> procedimentos_atrasados m = length (filter late procs)
    \<and> taxa_pontualidade m =
        (if procs = [] then 0
         else of_nat (length (filter onTime procs)) / of_nat (length procs) * 100)
    \<and> ((\<forall>p \<in> set procs. delayHours p = None) \<longrightarrow> taxa_pontualidade m = 0)
    \<and> tempo_medio_atraso m =
        (if filter late procs = [] then 0
         else sum_list (map lateDelay procs) / of_nat (length (filter late procs)))
    \<and> (\<forall>p s t. scheduledDate p = Some s \<and> performedDate p = Some t \<longrightarrow>
          (onTime p \<longleftrightarrow> t - s \<le> 3600000) \<and> (late p \<longleftrightarrow> \<not> onTime p)
          \<and> (late p \<longrightarrow> lateDelay p = rat_of_int (t - s) / 3600000))"
proof -
  define procs where "procs = filter (inWindow hId startDate endDate) rows"
  define m where "m = getEfficiencyMetrics hId startDate endDate rows"
  have a: "procedimentos_no_prazo m = length (filter onTime procs)"
    by (simp add: m_def procs_def getEfficiencyMetrics_def Let_def foldl_no_prazo)
  have b: "procedimentos_atrasados m = length (filter late procs)"
    by (simp add: m_def procs_def getEfficiencyMetrics_def Let_def foldl_atrasados)
  have c: "taxa_pontualidade m =
        (if procs = [] then 0
         else of_nat (length (filter onTime procs)) / of_nat (length procs) * 100)"
    by (simp add: m_def procs_def getEfficiencyMetrics_def Let_def foldl_no_prazo)
  have d: "(\<forall>p \<in> set procs. delayHours p = None) \<longrightarrow> taxa_pontualidade m = 0"
  proof
    assume "\<forall>p \<in> set procs. delayHours p = None"
    then have "filter onTime procs = []"
      by (simp add: filter_empty_conv no_dates_not_onTime)
    then show "taxa_pontualidade m = 0"
      by (simp add: c)
  qed
  have e: "tempo_medio_atraso m =
        (if filter late procs = [] then 0
         else sum_list (map lateDelay procs) / of_nat (length (filter late procs)))"
    by (simp add: m_def procs_def getEfficiencyMetrics_def Let_def foldl_atrasados
        foldl_total_atraso)
  have f: "\<forall>p s t. scheduledDate p = Some s \<and> performedDate p = Some t \<longrightarrow>
          (onTime p \<longleftrightarrow> t - s \<le> 3600000) \<and> (late p \<longleftrightarrow> \<not> onTime p)
          \<and> (late p \<longrightarrow> lateDelay p = rat_of_int (t - s) / 3600000)"
    using delay_classes by blast
  from a b c d e f show ?thesis
    unfolding Let_def procs_def [symmetric] m_def [symmetric] by blast
qed

lemma inWindow_timing:
  "inWindow ''hosp_sagrada_familia_001'' a b (timing s t) = (a \<le> t \<and> t \<le> b)"
  by (simp add: inWindow_def timing_def)

lemma timing_classes:
  "onTime (timing s t) = (t - s \<le> 3600000)"
  "late (timing s t) = (\<not> t - s \<le> 3600000)"
  using delay_classes [of "timing s t" s t] by (simp_all add: timing_def)

lemma timing_lateDelay:
  "lateDelay (timing s t) = (if t - s \<le> 3600000 then 0 else rat_of_int (t - s) / 3600000)"
  using delay_classes [of "timing s t" s t]
  by (auto simp add: timing_def lateDelay_def late_def split: option.splits)

lemma unscheduled_simps:
  "delayHours ((timing s t)\<lparr>scheduledDate := None\<rparr>) = None"
  "onTime ((timing s t)\<lparr>scheduledDate := None\<rparr>) = False"
  "late ((timing s t)\<lparr>scheduledDate := None\<rparr>) = False"
  "lateDelay ((timing s t)\<lparr>scheduledDate := None\<rparr>) = 0"
  "inWindow ''hosp_sagrada_familia_001'' a b ((timing s t)\<lparr>scheduledDate := None\<rparr>) =
     (a \<le> t \<and> t \<le> b)"
  by (simp_all add: delayHours_def onTime_def late_def lateDelay_def inWindow_def timing_def)

theorem getEfficiencyMetrics_punctuality_witness:
  "scheduledDate (timing 1000 5401000) = Some 1000
   \<and> performedDate (timing 1000 5401000) = Some 5401000
   \<and> onTime (timing 1000 2701000) \<and> late (timing 1000 5401000)
   \<and> lateDelay (timing 1000 5401000) = 3 / 2
   \<and> procedimentos_no_prazo
       (getEfficiencyMetrics ''hosp_sagrada_familia_001'' 0 86399999
          [timing 1000 2701000, timing 1000 5401000]) = 1
   \<and> procedimentos_atrasados
       (getEfficiencyMetrics ''hosp_sagrada_familia_001'' 0 86399999
          [timing 1000 2701000, timing 1000 5401000]) = 1
   \<and> taxa_pontualidade
       (getEfficiencyMetrics ''hosp_sagrada_familia_001'' 0 86399999
          [timing 1000 2701000, timing 1000 5401000]) = 50
   \<and> tempo_medio_atraso
       (getEfficiencyMetrics ''hosp_sagrada_familia_001'' 0 86399999
          [timing 1000 2701000, timing 1000 5401000]) = 3 / 2
   \<and> delayHours ((timing 1000 2701000)\<lparr>scheduledDate := None\<rparr>) = None
   \<and> taxa_pontualidade
       (getEfficiencyMetrics ''hosp_sagrada_familia_001'' 0 86399999
          [(timing 1000 2701000)\<lparr>scheduledDate := None\<rparr>]) = 0
   \<and> tempo_medio_atraso
       (getEfficiencyMetrics ''hosp_sagrada_familia_001'' 0 86399999 [timing 1000 2701000]) = 0"
  using
    getEfficiencyMetrics_punctuality [of "''hosp_sagrada_familia_001''" 0 86399999
      "[timing 1000 2701000, timing 1000 5401000]"]
    getEfficiencyMetrics_punctuality [of "''hosp_sagrada_familia_001''" 0 86399999
      "[(timing 1000 2701000)\<lparr>scheduledDate := None\<rparr>]"]
    getEfficiencyMetrics_punctuality [of "''hosp_sagrada_familia_001''" 0 86399999
      "[timing 1000 2701000]"]
  unfolding Let_def
  by (simp add: inWindow_timing timing_classes timing_lateDelay unscheduled_simps)
    (simp add: timing_def)

text \<open>
  The rate is not taken over the procedures that have both dates. One procedure on time
  and one performed procedure without a scheduled date give one on time, none late, and
  a rate of 50, where one out of the one procedure with both dates is 100.
\<close>

theorem punctuality_total_counterexample:
  "procedimentos_no_prazo
     (getEfficiencyMetrics ''hosp_sagrada_familia_001'' 0 86399999
        [timing 1000 2701000, (timing 1000 2701000)\<lparr>scheduledDate := None\<rparr>]) = 1
   \<and> procedimentos_atrasados
       (getEfficiencyMetrics ''hosp_sagrada_familia_001'' 0 86399999
          [timing 1000 2701000, (timing 1000 2701000)\<lparr>scheduledDate := None\<rparr>]) = 0
   \<and> taxa_pontualidade
       (getEfficiencyMetrics ''hosp_sagrada_familia_001'' 0 86399999
          [timing 1000 2701000, (timing 1000 2701000)\<lparr>scheduledDate := None\<rparr>]) = 50"
  by (simp add: getEfficiencyMetrics_def Let_def tallyProcedure_no_prazo
      tallyProcedure_atrasados inWindow_timing timing_classes unscheduled_simps)

end
